theory Spec2Isabelle
  imports Complex_Main "HOL-Library.Word" "HOL-Library.Signed_Division"
begin

section \<open>Data model\<close>

text \<open>
  An address (Go \<open>net.IP\<close>) is a byte slice. The sources handle lists of pointers
  \<open>[]*net.IP\<close>, as the readers of the \<open>addressing\<close> package produce them (none of them
  nil), and only ever read through them, so an address list is modelled by the list of
  the byte strings pointed to.
\<close>

type_synonym byte = "8 word"
type_synonym ip = "byte list"

text \<open>
  Go \<open>float64\<close> values, as far as the comparison \<open><\<close> is concerned: a finite number,
  one of the two infinities, or NaN. \<open>f64_less\<close> is the IEEE comparison of Go: it is
  false as soon as one side is NaN.
\<close>

datatype float64 = NaN | NegInf | Finite real | PosInf

fun f64_less :: "float64 \<Rightarrow> float64 \<Rightarrow> bool" where
  "f64_less NaN y = False"
| "f64_less x NaN = False"
| "f64_less x NegInf = False"
| "f64_less PosInf y = False"
| "f64_less NegInf y = True"
| "f64_less (Finite a) (Finite b) = (a < b)"
| "f64_less (Finite a) PosInf = True"

text \<open>Go errors are opaque values; a nil error is \<open>None\<close>.\<close>

datatype error = Error string

text \<open>A run-time panic of the Go program.\<close>

datatype panic = IntegerDivideByZero

text \<open>
  The remainder \<open>a % b\<close> on Go's \<open>int\<close>: a run-time panic when the divisor is zero,
  the truncated remainder otherwise.
\<close>

definition go_rem :: "int \<Rightarrow> int \<Rightarrow> panic + int" where
  "go_rem a b = (if b = 0 then Inl IntegerDivideByZero else Inr (a smod b))"

text \<open>
  The fields of \<open>config.Configuration\<close> the two source files read. The path getters
  (\<open>conf.GetStateFilePath()\<close> and the like) are methods declared outside these files;
  each is a field holding the path it returns.
\<close>

record configuration =
  InputMinAddresses :: int
  InputEmitFreq :: int
  InputEntropyBitLength :: int
  InputEntropyThreshold :: float64
  OutputFileType :: string
  BaseOutputDirectory :: string
  GetStateFilePath :: string
  GetPingResultDirPath :: string
  GetGeneratedModelDirPath :: string
  GetCleanPingDirPath :: string
  GetOutputFilePath :: string

text \<open>
  The only pipeline state the sources name. The other constants of the enumeration are
  declared in a file that is not part of this development.
\<close>

datatype state = NETWORK_GROUP

text \<open>
  The two operator prompts, by the values their format strings are filled with:
  \<open>confirmCleanUpExisting\<close> shows the input file path and refers to the base output
  directory, \<open>confirmTooFew\<close> shows the surviving count and the configured minimum.
\<close>

datatype prompt = CleanUpPrompt string string | TooFewPrompt int int

section \<open>External collaborators\<close>

text \<open>
  Everything the two files call in other packages is a field of this record: the answer
  of the collaborator to a call with the given arguments.
  \<^item> \<open>GetEntropyOfBitsFromRight\<close>: the entropy score of \<open>zrandom\<close>;
  \<^item> \<open>PromptForApproval\<close>: the operator's answer, nil when approved;
  \<^item> \<open>ReadIPsFromBinaryFile\<close>, \<open>ReadIPsFromHexFile\<close>: the decoded list and the error;
  \<^item> \<open>DeleteAllFilesInDirectory\<close>: the number of files deleted and the error;
  \<^item> \<open>GetTimedFilePath\<close>: a time-stamped path inside a directory;
  \<^item> \<open>ModelSave\<close>: saving the model of the given name at the given path;
  \<^item> \<open>WriteIPsToHexFile\<close>, \<open>SetStateFile\<close>: the error of the write;
  \<^item> \<open>GetCleanPingResults\<close>: the clean ping results and the error;
  \<^item> \<open>OpenFile\<close>: the error of opening the output file for appending;
  \<^item> \<open>BufWrite\<close>: the error of one \<open>Write\<close> or \<open>WriteString\<close> on the buffered writer,
    given the bytes handed to the writer before and the bytes of this call;
  \<^item> \<open>BufFlush\<close>: the error of \<open>Flush\<close>, and how many of the bytes handed to the writer
    have reached the file by then;
  \<^item> \<open>IPString\<close>: the bytes of the text \<open>net.IP.String\<close> prints for an address.
\<close>

record extern =
  GetEntropyOfBitsFromRight :: "ip \<Rightarrow> int \<Rightarrow> float64"
  PromptForApproval :: "prompt \<Rightarrow> error option"
  ReadIPsFromBinaryFile :: "string \<Rightarrow> ip list \<times> error option"
  ReadIPsFromHexFile :: "string \<Rightarrow> ip list \<times> error option"
  DeleteAllFilesInDirectory :: "string \<Rightarrow> int \<times> error option"
  GetTimedFilePath :: "string \<Rightarrow> string"
  ModelSave :: "string \<Rightarrow> string \<Rightarrow> error option"
  WriteIPsToHexFile :: "string \<Rightarrow> ip list \<Rightarrow> error option"
  SetStateFile :: "string \<Rightarrow> state \<Rightarrow> error option"
  GetCleanPingResults :: "string \<Rightarrow> ip list \<times> error option"
  OpenFile :: "string \<Rightarrow> error option"
  BufWrite :: "byte list \<Rightarrow> byte list \<Rightarrow> error option"
  BufFlush :: "byte list \<Rightarrow> nat \<times> error option"
  IPString :: "ip \<Rightarrow> byte list"

section \<open>The entropy filter\<close>

text \<open>
  \<open>filterOutHighEntropyIPs\<close> (input.go): the \<open>range\<close> loop over the list, with its
  index \<open>i\<close> and the slice \<open>toReturn\<close> it appends to. The remainder \<open>i % InputEmitFreq\<close>
  is evaluated at every element and only decides whether a progress line is logged; the
  log lines themselves are not part of the model.
\<close>

fun filterLoop :: "extern \<Rightarrow> configuration \<Rightarrow> int \<Rightarrow> ip list \<Rightarrow> ip list \<Rightarrow> panic + ip list" where
  "filterLoop ext conf i [] toReturn = Inr toReturn"
| "filterLoop ext conf i (ip # rest) toReturn =
     (case go_rem i (InputEmitFreq conf) of
        Inl p \<Rightarrow> Inl p
      | Inr r \<Rightarrow>
          (let entropy = GetEntropyOfBitsFromRight ext ip (InputEntropyBitLength conf)
           in if f64_less entropy (InputEntropyThreshold conf)
              then filterLoop ext conf (i + 1) rest (toReturn @ [ip])
              else filterLoop ext conf (i + 1) rest toReturn))"

definition filterOutHighEntropyIPs :: "extern \<Rightarrow> ip list \<Rightarrow> configuration \<Rightarrow> panic + ip list" where
  "filterOutHighEntropyIPs ext ips conf = filterLoop ext conf 0 ips []"

section \<open>Deduplication\<close>

text \<open>
  Modelled from the spec: \<open>addressing.GetUniqueIPs\<close>, which \<open>removeDuplicateIPs\<close> calls, is
  not among the sources. The specification describes it as a single pass that maps each
  raw byte value to a first-seen flag, keeps the first occurrence of every address, logs
  progress every \<open>updateFreq\<close> items and has no error conditions.
\<close>

fun uniqueLoop :: "(ip \<rightharpoonup> bool) \<Rightarrow> ip list \<Rightarrow> ip list \<Rightarrow> ip list" where
  "uniqueLoop checkMap [] toReturn = toReturn"
| "uniqueLoop checkMap (ip # rest) toReturn =
     (case checkMap ip of
        Some seen \<Rightarrow> uniqueLoop checkMap rest toReturn
      | None \<Rightarrow> uniqueLoop (checkMap(ip \<mapsto> True)) rest (toReturn @ [ip]))"

definition GetUniqueIPs :: "ip list \<Rightarrow> int \<Rightarrow> ip list" where
  "GetUniqueIPs ips updateFreq = uniqueLoop Map.empty ips []"

text \<open>\<open>removeDuplicateIPs\<close> (input.go) hands the list and the log interval over.\<close>

definition removeDuplicateIPs :: "ip list \<Rightarrow> configuration \<Rightarrow> ip list" where
  "removeDuplicateIPs ips conf = GetUniqueIPs ips (InputEmitFreq conf)"

text \<open>
  The position of the first occurrence of an address in a list (the length of the list
  when there is none); it states the order of first appearance.
\<close>

definition firstIndex :: "ip list \<Rightarrow> ip \<Rightarrow> nat" where
  "firstIndex ips x = length (takeWhile (\<lambda>y. y \<noteq> x) ips)"

section \<open>The intake pipeline\<close>

text \<open>
  The pipeline touches the operator and the file system only through calls of external
  collaborators. A run is described by the value it returns and by the sequence of those
  calls, each with the error it returned. Log lines are not recorded.
\<close>

datatype call =
    AskApproval prompt
  | ReadBinaryFile string
  | ReadHexFile string
  | DeleteAllFiles string
  | SaveModel string string
  | WriteHexFile string "ip list"
  | WriteStateFile string state

type_synonym event = "call \<times> error option"

text \<open>The calls that change files: workspace reset, model bootstrap, result write, state advance.\<close>

fun mutates :: "call \<Rightarrow> bool" where
  "mutates (DeleteAllFiles dir) = True"
| "mutates (SaveModel name path) = True"
| "mutates (WriteHexFile path addrs) = True"
| "mutates (WriteStateFile path st) = True"
| "mutates c = False"

definition confirmCleanUpExisting ::
  "extern \<Rightarrow> string \<Rightarrow> configuration \<Rightarrow> event list \<Rightarrow> error option \<times> event list" where
  "confirmCleanUpExisting ext inputFilePath conf t =
     (let prompt = CleanUpPrompt inputFilePath (BaseOutputDirectory conf);
          err = PromptForApproval ext prompt;
          t = t @ [(AskApproval prompt, err)]
      in if err \<noteq> None then (err, t) else (None, t))"

definition confirmTooFew ::
  "extern \<Rightarrow> int \<Rightarrow> configuration \<Rightarrow> event list \<Rightarrow> error option \<times> event list" where
  "confirmTooFew ext count conf t =
     (let prompt = TooFewPrompt count (InputMinAddresses conf);
          err = PromptForApproval ext prompt;
          t = t @ [(AskApproval prompt, err)]
      in if err \<noteq> None then (err, t) else (None, t))"

definition getIPsFromFile ::
  "extern \<Rightarrow> string \<Rightarrow> string \<Rightarrow> event list \<Rightarrow> (ip list \<times> error option) \<times> event list" where
  "getIPsFromFile ext inputFilePath inputFileType t =
     (if inputFileType = ''bin''
      then (let (toReturn, err) = ReadIPsFromBinaryFile ext inputFilePath
            in ((toReturn, err), t @ [(ReadBinaryFile inputFilePath, err)]))
      else (let (toReturn, err) = ReadIPsFromHexFile ext inputFilePath
            in ((toReturn, err), t @ [(ReadHexFile inputFilePath, err)])))"

definition cleanUpWorkingDirectories ::
  "extern \<Rightarrow> configuration \<Rightarrow> event list \<Rightarrow> error option \<times> event list" where
  "cleanUpWorkingDirectories ext conf t =
     (let (numDeleted, err) = DeleteAllFilesInDirectory ext (BaseOutputDirectory conf);
          t = t @ [(DeleteAllFiles (BaseOutputDirectory conf), err)]
      in if err \<noteq> None then (err, t) else (None, t))"

definition createBlankModel ::
  "extern \<Rightarrow> string \<Rightarrow> configuration \<Rightarrow> event list \<Rightarrow> error option \<times> event list" where
  "createBlankModel ext inputFilePath conf t =
     (let name = ''Model from '' @ inputFilePath;
          outputPath = GetTimedFilePath ext (GetGeneratedModelDirPath conf);
          err = ModelSave ext name outputPath;
          t = t @ [(SaveModel name outputPath, err)]
      in if err \<noteq> None then (err, t) else (None, t))"

definition writeNewAddresses ::
  "extern \<Rightarrow> ip list \<Rightarrow> configuration \<Rightarrow> event list \<Rightarrow> error option \<times> event list" where
  "writeNewAddresses ext toWrite conf t =
     (let outputPath = GetTimedFilePath ext (GetPingResultDirPath conf);
          err = WriteIPsToHexFile ext outputPath toWrite;
          t = t @ [(WriteHexFile outputPath toWrite, err)]
      in if err \<noteq> None then (err, t) else (None, t))"

definition updateState ::
  "extern \<Rightarrow> configuration \<Rightarrow> event list \<Rightarrow> error option \<times> event list" where
  "updateState ext conf t =
     (let err = SetStateFile ext (GetStateFilePath conf) NETWORK_GROUP;
          t = t @ [(WriteStateFile (GetStateFilePath conf) NETWORK_GROUP, err)]
      in if err \<noteq> None then (err, t) else (None, t))"

text \<open>
  \<open>PrepareFromInputFile\<close> (input.go), statement by statement. The run ends with a panic
  (\<open>Inl\<close>) when the entropy filter panics, and otherwise returns a Go error (\<open>Inr\<close>, with
  \<open>None\<close> for nil). The value \<open>writeNewAddresses\<close> returns is dropped, as in the source.
\<close>

definition PrepareFromInputFile ::
  "extern \<Rightarrow> string \<Rightarrow> string \<Rightarrow> configuration \<Rightarrow> (panic + error option) \<times> event list" where
  "PrepareFromInputFile ext inputFilePath fileType conf =
     (let (err, t) = confirmCleanUpExisting ext inputFilePath conf [] in
      if err \<noteq> None then (Inr err, t) else
      let ((addrs, err), t) = getIPsFromFile ext inputFilePath fileType t in
      if err \<noteq> None then (Inr err, t) else
      let addrs = removeDuplicateIPs addrs conf in
      case filterOutHighEntropyIPs ext addrs conf of
        Inl p \<Rightarrow> (Inl p, t)
      | Inr addrs \<Rightarrow>
          let (err, t) = (if int (length addrs) < InputMinAddresses conf
                          then confirmTooFew ext (int (length addrs)) conf t
                          else (None, t)) in
          if err \<noteq> None then (Inr err, t) else
          let (err, t) = cleanUpWorkingDirectories ext conf t in
          if err \<noteq> None then (Inr err, t) else
          let (err, t) = createBlankModel ext inputFilePath conf t in
          if err \<noteq> None then (Inr err, t) else
          let (dropped, t) = writeNewAddresses ext addrs conf t in
          let (err, t) = updateState ext conf t in
          if err \<noteq> None then (Inr err, t) else (Inr None, t))"

section \<open>The result writer\<close>

text \<open>
  The lines \<open>updateAddressFile\<close> logs, by the values they are formatted from.
\<close>

datatype logline =
    LogUpdating string nat
  | LogUnexpectedFormat string
  | LogFinished nat string

text \<open>
  What a call of \<open>updateAddressFile\<close> leaves behind: the error it returns, the lines it
  logs, the bytes it hands to the buffered writer (in order), and the bytes that have
  reached the output file after the final flush.
\<close>

record updateResult =
  returned :: "error option"
  logged :: "logline list"
  handed :: "byte list"
  appended :: "byte list"

definition newline :: byte where
  "newline = 0x0A"

text \<open>
  The two \<open>range\<close> loops over the clean ping results. The second argument is the byte
  stream handed to the writer so far. The results of \<open>writer.WriteString\<close> and
  \<open>writer.Write\<close> are dropped, as in the source.
\<close>

fun writeTextLoop :: "extern \<Rightarrow> ip list \<Rightarrow> byte list \<Rightarrow> byte list" where
  "writeTextLoop ext [] stream = stream"
| "writeTextLoop ext (addr # rest) stream =
     (let line = IPString ext addr @ [newline];
          dropped = BufWrite ext stream line
      in writeTextLoop ext rest (stream @ line))"

fun writeBinLoop :: "extern \<Rightarrow> ip list \<Rightarrow> byte list \<Rightarrow> byte list" where
  "writeBinLoop ext [] stream = stream"
| "writeBinLoop ext (addr # rest) stream =
     (let toWrite = addr;
          dropped = BufWrite ext stream toWrite
      in writeBinLoop ext rest (stream @ toWrite))"

text \<open>
  \<open>updateAddressFile\<close> (addrupdate.go). The result of \<open>writer.Flush\<close> is dropped; of the
  bytes handed to the writer, the file holds the prefix the flush reports.
\<close>

definition updateAddressFile :: "extern \<Rightarrow> configuration \<Rightarrow> updateResult" where
  "updateAddressFile ext conf =
     (let (cleanPings, err) = GetCleanPingResults ext (GetCleanPingDirPath conf) in
      if err \<noteq> None
      then \<lparr>returned = err, logged = [], handed = [], appended = []\<rparr>
      else
        let outputPath = GetOutputFilePath conf;
            log1 = [LogUpdating outputPath (length cleanPings)];
            err = OpenFile ext outputPath
        in if err \<noteq> None
           then \<lparr>returned = err, logged = log1, handed = [], appended = []\<rparr>
           else
             let (log2, stream) =
                   (if OutputFileType conf \<noteq> ''bin''
                    then ((if \<not> (OutputFileType conf = ''text'')
                           then [LogUnexpectedFormat (OutputFileType conf)] else []),
                          writeTextLoop ext cleanPings [])
                    else ([], writeBinLoop ext cleanPings []));
                 (n, dropped) = BufFlush ext stream
             in \<lparr>returned = None,
                 logged = log1 @ log2 @ [LogFinished (length cleanPings) outputPath],
                 handed = stream,
                 appended = take n stream\<rparr>)"

section \<open>Example runs\<close>

text \<open>
  Concrete collaborators and a concrete configuration, used to evaluate the functions
  above on examples. Three addresses: \<open>2001:db8::1\<close>, \<open>2001:db8::2\<close> and one with a
  random-looking interface identifier.
\<close>

definition ipA :: ip where
  "ipA = [0x20, 0x01, 0x0d, 0xb8, 0, 0, 0, 0, 0, 0, 0, 0, 0, 0, 0, 1]"

definition ipB :: ip where
  "ipB = [0x20, 0x01, 0x0d, 0xb8, 0, 0, 0, 0, 0, 0, 0, 0, 0, 0, 0, 2]"

definition ipC :: ip where
  "ipC = [0x20, 0x01, 0x0d, 0xb8, 0, 0, 0, 0, 0x8a, 0x2e, 0x03, 0x70, 0x73, 0x34, 0x5f, 0x1c]"

text \<open>
  A stand-in for the entropy score: the last byte of the address as a fraction of 256,
  and NaN for an empty slice. It only serves the examples.
\<close>

definition lastByteScore :: "ip \<Rightarrow> int \<Rightarrow> float64" where
  "lastByteScore a bitCount = (if a = [] then NaN else Finite (real (unat (last a)) / 256))"

text \<open>A stand-in for the text of an address: a tag byte, then the last byte of the address.\<close>

definition shortText :: "ip \<Rightarrow> byte list" where
  "shortText a = (if a = [] then [] else [0x3A, last a])"

definition exampleConf :: configuration where
  "exampleConf =
     \<lparr>InputMinAddresses = 2, InputEmitFreq = 1000, InputEntropyBitLength = 64,
      InputEntropyThreshold = Finite (1 / 20), OutputFileType = ''text'',
      BaseOutputDirectory = ''out'', GetStateFilePath = ''out/state'',
      GetPingResultDirPath = ''out/ping'', GetGeneratedModelDirPath = ''out/model'',
      GetCleanPingDirPath = ''out/clean'', GetOutputFilePath = ''out/found''\<rparr>"

text \<open>The operator approves everything and every file operation succeeds.\<close>

definition quietWorld :: extern where
  "quietWorld =
     \<lparr>GetEntropyOfBitsFromRight = lastByteScore,
      PromptForApproval = (\<lambda>p. None),
      ReadIPsFromBinaryFile = (\<lambda>path. ([ipA, ipB, ipA, ipC], None)),
      ReadIPsFromHexFile = (\<lambda>path. ([ipA, ipB, ipA, ipC], None)),
      DeleteAllFilesInDirectory = (\<lambda>dir. (3, None)),
      GetTimedFilePath = (\<lambda>dir. dir @ ''/now''),
      ModelSave = (\<lambda>name path. None),
      WriteIPsToHexFile = (\<lambda>path addrs. None),
      SetStateFile = (\<lambda>path st. None),
      GetCleanPingResults = (\<lambda>dir. ([ipA, ipB], None)),
      OpenFile = (\<lambda>path. None),
      BufWrite = (\<lambda>stream p. None),
      BufFlush = (\<lambda>stream. (length stream, None)),
      IPString = shortText\<rparr>"

text \<open>As \<open>quietWorld\<close>, but writing the surviving addresses fails.\<close>

definition writeFails :: extern where
  "writeFails = quietWorld\<lparr>WriteIPsToHexFile := (\<lambda>path addrs. Some (Error ''no space left''))\<rparr>"

text \<open>As \<open>quietWorld\<close>, but the operator declines to continue with too few addresses.\<close>

definition declinesTooFew :: extern where
  "declinesTooFew =
     quietWorld\<lparr>PromptForApproval :=
       (\<lambda>p. case p of CleanUpPrompt path dir \<Rightarrow> None
                     | TooFewPrompt count minimum \<Rightarrow> Some (Error ''Exiting.''))\<rparr>"

text \<open>As \<open>quietWorld\<close>, but deleting the files of the workspace fails after one file.\<close>

definition resetFails :: extern where
  "resetFails =
     quietWorld\<lparr>DeleteAllFilesInDirectory := (\<lambda>dir. (1, Some (Error ''permission denied'')))\<rparr>"

text \<open>As \<open>quietWorld\<close>, but every write to the output file fails and nothing reaches it.\<close>

definition diskFull :: extern where
  "diskFull =
     quietWorld\<lparr>BufWrite := (\<lambda>stream p. Some (Error ''no space left'')),
                BufFlush := (\<lambda>stream. (0, Some (Error ''no space left'')))\<rparr>"

section \<open>Evaluating the examples\<close>

lemmas example_defs =
  quietWorld_def exampleConf_def lastByteScore_def shortText_def ipA_def ipB_def ipC_def

section \<open>Properties of the entropy filter\<close>

lemma filterLoop_returns:
  "InputEmitFreq conf \<noteq> 0 \<Longrightarrow>
   filterLoop ext conf i ips acc =
     Inr (acc @ filter (\<lambda>ip. f64_less (GetEntropyOfBitsFromRight ext ip (InputEntropyBitLength conf))
                                  (InputEntropyThreshold conf)) ips)"
  by (induction ips arbitrary: i acc) (simp_all add: go_rem_def)

lemma filterLoop_panics:
  "InputEmitFreq conf = 0 \<Longrightarrow> ips \<noteq> [] \<Longrightarrow> filterLoop ext conf i ips acc = Inl IntegerDivideByZero"
  by (cases ips) (simp_all add: go_rem_def)

text \<open>
  C3. For every list, bit length and threshold, with a log interval other than zero (or
  an empty list), the entropy filter returns exactly the addresses whose score over the
  rightmost \<open>InputEntropyBitLength\<close> bits is strictly below the threshold, each of them
  as it was in the input and in the input's order: an address is kept if and only if its
  score is below the threshold, and no address is changed.
\<close>

theorem filter_keeps_exactly_low_entropy:
  assumes "InputEmitFreq conf \<noteq> 0 \<or> ips = []"
  shows "filterOutHighEntropyIPs ext ips conf =
           Inr (filter (\<lambda>ip. f64_less (GetEntropyOfBitsFromRight ext ip (InputEntropyBitLength conf))
                                      (InputEntropyThreshold conf)) ips)"
proof (cases "ips = []")
  case True
  then show ?thesis by (simp add: filterOutHighEntropyIPs_def)
next
  case False
  with assms show ?thesis by (simp add: filterOutHighEntropyIPs_def filterLoop_returns)
qed

theorem filter_keeps_exactly_low_entropy_witness:
  "InputEmitFreq exampleConf \<noteq> 0 \<and>
   filterOutHighEntropyIPs quietWorld [ipA, ipC, ipB] exampleConf = Inr [ipA, ipB]"
  using filter_keeps_exactly_low_entropy
          [where conf = exampleConf and ext = quietWorld and ips = "[ipA, ipC, ipB]"]
  by (simp add: example_defs)

text \<open>
  C9, as amended. The entropy filter panics with an integer division by zero exactly when
  the log interval \<open>InputEmitFreq\<close> is zero and the list is not empty; it returns a list
  exactly when the interval is not zero (positive or negative) or the list is empty.
\<close>

theorem filter_total_iff:
  "(filterOutHighEntropyIPs ext ips conf = Inl IntegerDivideByZero) = (InputEmitFreq conf = 0 \<and> ips \<noteq> []) \<and>
   (\<exists>out. filterOutHighEntropyIPs ext ips conf = Inr out) = (InputEmitFreq conf \<noteq> 0 \<or> ips = [])"
proof (cases "InputEmitFreq conf = 0")
  case True
  then show ?thesis
    by (cases ips) (simp_all add: filterOutHighEntropyIPs_def go_rem_def)
next
  case False
  then show ?thesis
    by (simp add: filterOutHighEntropyIPs_def filterLoop_returns)
qed

theorem filter_total_iff_witness:
  "filterOutHighEntropyIPs quietWorld [ipA] (exampleConf\<lparr>InputEmitFreq := 0\<rparr>) = Inl IntegerDivideByZero \<and>
   (\<exists>out. filterOutHighEntropyIPs quietWorld [ipA] exampleConf = Inr out)"
  using filter_total_iff [of quietWorld "[ipA]" "exampleConf\<lparr>InputEmitFreq := 0\<rparr>"]
        filter_total_iff [of quietWorld "[ipA]" exampleConf]
  by (simp add: exampleConf_def ipA_def)

text \<open>
  C9 as stated requires a strictly positive interval for the filter to return. With the
  interval \<open>-1\<close> the remainder \<open>i % -1\<close> is defined and the filter returns.
\<close>

theorem filter_negative_freq_counterexample:
  "filterOutHighEntropyIPs quietWorld [ipA] (exampleConf\<lparr>InputEmitFreq := - 1\<rparr>) = Inr [ipA] \<and>
   \<not> 0 < InputEmitFreq (exampleConf\<lparr>InputEmitFreq := - 1\<rparr>)"
  by (simp add: filterOutHighEntropyIPs_def go_rem_def example_defs)

section \<open>Properties of deduplication\<close>

lemma uniqueLoop_set:
  "set (uniqueLoop m ips acc) = set acc \<union> {x \<in> set ips. m x = None}"
proof (induction ips arbitrary: m acc)
  case Nil
  then show ?case by simp
next
  case (Cons x rest)
  show ?case
  proof (cases "m x")
    case None
    then show ?thesis by (auto simp: Cons.IH)
  next
    case (Some a)
    then show ?thesis by (auto simp: Cons.IH)
  qed
qed

lemma uniqueLoop_distinct:
  "distinct acc \<Longrightarrow> set acc \<subseteq> dom m \<Longrightarrow> distinct (uniqueLoop m ips acc)"
proof (induction ips arbitrary: m acc)
  case Nil
  then show ?case by simp
next
  case (Cons x rest)
  show ?case
  proof (cases "m x")
    case None
    then have "x \<notin> set acc" using Cons.prems(2) by auto
    then have "distinct (uniqueLoop (m(x \<mapsto> True)) rest (acc @ [x]))"
      using Cons.prems by (intro Cons.IH) auto
    with None show ?thesis by simp
  next
    case (Some a)
    with Cons show ?thesis by simp
  qed
qed

lemma firstIndex_mem: "x \<in> set pre \<Longrightarrow> firstIndex (pre @ ips) x < length pre"
  unfolding firstIndex_def
  by (induction pre) auto

lemma firstIndex_fresh: "x \<notin> set pre \<Longrightarrow> firstIndex (pre @ x # rest) x = length pre"
  unfolding firstIndex_def
  by (induction pre) auto

lemma uniqueLoop_order:
  "dom m = set pre \<Longrightarrow> set acc = set pre \<Longrightarrow>
   sorted_wrt (<) (map (firstIndex (pre @ ips)) acc) \<Longrightarrow>
   sorted_wrt (<) (map (firstIndex (pre @ ips)) (uniqueLoop m ips acc))"
proof (induction ips arbitrary: m pre acc)
  case Nil
  then show ?case by simp
next
  case (Cons x rest)
  show ?case
  proof (cases "m x")
    case None
    then have fresh: "x \<notin> set pre" using Cons.prems(1) by auto
    have acc': "sorted_wrt (<) (map (firstIndex ((pre @ [x]) @ rest)) (acc @ [x]))"
      using Cons.prems(2,3) fresh firstIndex_mem [of _ pre "x # rest"] firstIndex_fresh [of x pre rest]
      by (auto simp: sorted_wrt_append)
    have "sorted_wrt (<) (map (firstIndex ((pre @ [x]) @ rest)) (uniqueLoop (m(x \<mapsto> True)) rest (acc @ [x])))"
    proof (rule Cons.IH [OF _ _ acc'])
      show "dom (m(x \<mapsto> True)) = set (pre @ [x])" using Cons.prems(1) by simp
      show "set (acc @ [x]) = set (pre @ [x])" using Cons.prems(2) by simp
    qed
    with None show ?thesis by simp
  next
    case (Some a)
    then have seen: "x \<in> set pre" using Cons.prems(1) by auto
    have "sorted_wrt (<) (map (firstIndex ((pre @ [x]) @ rest)) (uniqueLoop m rest acc))"
    proof (rule Cons.IH)
      show "dom m = set (pre @ [x])" using Cons.prems(1) seen by auto
      show "set acc = set (pre @ [x])" using Cons.prems(2) seen by auto
      show "sorted_wrt (<) (map (firstIndex ((pre @ [x]) @ rest)) acc)" using Cons.prems(3) by simp
    qed
    with Some show ?thesis by simp
  qed
qed

lemma uniqueLoop_fresh:
  "distinct ips \<Longrightarrow> set ips \<inter> dom m = {} \<Longrightarrow> uniqueLoop m ips acc = acc @ ips"
proof (induction ips arbitrary: m acc)
  case Nil
  then show ?case by simp
next
  case (Cons x rest)
  then have fresh: "m x = None" by auto
  have "uniqueLoop (m(x \<mapsto> True)) rest (acc @ [x]) = (acc @ [x]) @ rest"
  proof (rule Cons.IH)
    show "distinct rest" using Cons.prems(1) by simp
    have "x \<notin> set rest" using Cons.prems(1) by simp
    then show "set rest \<inter> dom (m(x \<mapsto> True)) = {}" using Cons.prems(2) by simp
  qed
  with fresh show ?case by simp
qed

lemma count_list_distinct: "distinct xs \<Longrightarrow> count_list xs x = (if x \<in> set xs then 1 else 0)"
  by (induction xs) auto

text \<open>
  C5. Deduplication outputs every distinct address of its input exactly once (and nothing
  else), in the order of first appearance in the input; applying it twice is the same as
  applying it once; the empty list is mapped to the empty list. Being a function of the
  list, it is deterministic.
\<close>

theorem dedup_first_occurrences:
  "distinct (removeDuplicateIPs ips conf) \<and>
   set (removeDuplicateIPs ips conf) = set ips \<and>
   count_list (removeDuplicateIPs ips conf) x = (if x \<in> set ips then 1 else 0) \<and>
   sorted_wrt (<) (map (firstIndex ips) (removeDuplicateIPs ips conf)) \<and>
   removeDuplicateIPs (removeDuplicateIPs ips conf) conf = removeDuplicateIPs ips conf \<and>
   removeDuplicateIPs [] conf = []"
proof -
  let ?out = "uniqueLoop Map.empty ips []"
  have d: "distinct ?out" by (rule uniqueLoop_distinct) simp_all
  have s: "set ?out = set ips" by (simp add: uniqueLoop_set)
  have c: "count_list ?out x = (if x \<in> set ips then 1 else 0)"
    using count_list_distinct [OF d, of x] s by simp
  have o: "sorted_wrt (<) (map (firstIndex ips) ?out)"
    using uniqueLoop_order [of Map.empty "[]" "[]" ips] by simp
  have i: "uniqueLoop Map.empty ?out [] = ?out"
    using uniqueLoop_fresh [OF d, of Map.empty "[]"] by simp
  show ?thesis
    using d s c o i by (simp add: removeDuplicateIPs_def GetUniqueIPs_def)
qed

theorem dedup_first_occurrences_witness:
  "removeDuplicateIPs [ipA, ipB, ipA, ipC, ipB] exampleConf = [ipA, ipB, ipC] \<and>
   count_list (removeDuplicateIPs [ipA, ipB, ipA, ipC, ipB] exampleConf) ipA = 1"
  using dedup_first_occurrences [of "[ipA, ipB, ipA, ipC, ipB]" exampleConf ipA]
  by (simp add: removeDuplicateIPs_def GetUniqueIPs_def ipA_def ipB_def ipC_def)

section \<open>Properties of the intake pipeline\<close>

text \<open>Each step appends one call to the sequence and returns the collaborator's error.\<close>

lemma confirmCleanUpExisting_eq:
  "confirmCleanUpExisting ext inputFilePath conf t =
     (PromptForApproval ext (CleanUpPrompt inputFilePath (BaseOutputDirectory conf)),
      t @ [(AskApproval (CleanUpPrompt inputFilePath (BaseOutputDirectory conf)),
            PromptForApproval ext (CleanUpPrompt inputFilePath (BaseOutputDirectory conf)))])"
  by (simp add: confirmCleanUpExisting_def Let_def)

lemma confirmTooFew_eq:
  "confirmTooFew ext count conf t =
     (PromptForApproval ext (TooFewPrompt count (InputMinAddresses conf)),
      t @ [(AskApproval (TooFewPrompt count (InputMinAddresses conf)),
            PromptForApproval ext (TooFewPrompt count (InputMinAddresses conf)))])"
  by (simp add: confirmTooFew_def Let_def)

lemma getIPsFromFile_eq:
  "getIPsFromFile ext inputFilePath fileType t =
     (if fileType = ''bin''
      then (ReadIPsFromBinaryFile ext inputFilePath,
            t @ [(ReadBinaryFile inputFilePath, snd (ReadIPsFromBinaryFile ext inputFilePath))])
      else (ReadIPsFromHexFile ext inputFilePath,
            t @ [(ReadHexFile inputFilePath, snd (ReadIPsFromHexFile ext inputFilePath))]))"
  by (simp add: getIPsFromFile_def case_prod_beta)

lemma cleanUpWorkingDirectories_eq:
  "cleanUpWorkingDirectories ext conf t =
     (snd (DeleteAllFilesInDirectory ext (BaseOutputDirectory conf)),
      t @ [(DeleteAllFiles (BaseOutputDirectory conf),
            snd (DeleteAllFilesInDirectory ext (BaseOutputDirectory conf)))])"
  by (simp add: cleanUpWorkingDirectories_def Let_def case_prod_beta)

lemma createBlankModel_eq:
  "createBlankModel ext inputFilePath conf t =
     (ModelSave ext (''Model from '' @ inputFilePath) (GetTimedFilePath ext (GetGeneratedModelDirPath conf)),
      t @ [(SaveModel (''Model from '' @ inputFilePath) (GetTimedFilePath ext (GetGeneratedModelDirPath conf)),
            ModelSave ext (''Model from '' @ inputFilePath) (GetTimedFilePath ext (GetGeneratedModelDirPath conf)))])"
  by (simp add: createBlankModel_def Let_def)

lemma writeNewAddresses_eq:
  "writeNewAddresses ext toWrite conf t =
     (WriteIPsToHexFile ext (GetTimedFilePath ext (GetPingResultDirPath conf)) toWrite,
      t @ [(WriteHexFile (GetTimedFilePath ext (GetPingResultDirPath conf)) toWrite,
            WriteIPsToHexFile ext (GetTimedFilePath ext (GetPingResultDirPath conf)) toWrite)])"
  by (simp add: writeNewAddresses_def Let_def)

lemma updateState_eq:
  "updateState ext conf t =
     (SetStateFile ext (GetStateFilePath conf) NETWORK_GROUP,
      t @ [(WriteStateFile (GetStateFilePath conf) NETWORK_GROUP,
            SetStateFile ext (GetStateFilePath conf) NETWORK_GROUP)])"
  by (simp add: updateState_def Let_def)

lemmas step_eqs =
  confirmCleanUpExisting_eq confirmTooFew_eq getIPsFromFile_eq cleanUpWorkingDirectories_eq
  createBlankModel_eq writeNewAddresses_eq updateState_eq

text \<open>
  The runs of the pipeline, one branch per place where the source returns: the value
  returned and the calls made up to there.
\<close>

lemma PrepareFromInputFile_runs:
  fixes ext inputFilePath fileType conf
  defines "gate1 \<equiv> (AskApproval (CleanUpPrompt inputFilePath (BaseOutputDirectory conf)), None)"
      and "rd \<equiv> (if fileType = ''bin'' then ReadIPsFromBinaryFile ext inputFilePath
                  else ReadIPsFromHexFile ext inputFilePath)"
      and "rdcall \<equiv> (if fileType = ''bin'' then ReadBinaryFile inputFilePath else ReadHexFile inputFilePath)"
      and "del \<equiv> snd (DeleteAllFilesInDirectory ext (BaseOutputDirectory conf))"
      and "mname \<equiv> ''Model from '' @ inputFilePath"
      and "mpath \<equiv> GetTimedFilePath ext (GetGeneratedModelDirPath conf)"
      and "ppath \<equiv> GetTimedFilePath ext (GetPingResultDirPath conf)"
      and "st \<equiv> SetStateFile ext (GetStateFilePath conf) NETWORK_GROUP"
  shows "PrepareFromInputFile ext inputFilePath fileType conf =
    (if PromptForApproval ext (CleanUpPrompt inputFilePath (BaseOutputDirectory conf)) \<noteq> None
     then (Inr (PromptForApproval ext (CleanUpPrompt inputFilePath (BaseOutputDirectory conf))),
           [(AskApproval (CleanUpPrompt inputFilePath (BaseOutputDirectory conf)),
             PromptForApproval ext (CleanUpPrompt inputFilePath (BaseOutputDirectory conf)))])
     else if snd rd \<noteq> None
     then (Inr (snd rd), [gate1, (rdcall, snd rd)])
     else case filterOutHighEntropyIPs ext (removeDuplicateIPs (fst rd) conf) conf of
       Inl p \<Rightarrow> (Inl p, [gate1, (rdcall, None)])
     | Inr addrs \<Rightarrow>
        (let gate2 = TooFewPrompt (int (length addrs)) (InputMinAddresses conf);
             asked = (if int (length addrs) < InputMinAddresses conf
                      then [(AskApproval gate2, PromptForApproval ext gate2)] else [])
         in if int (length addrs) < InputMinAddresses conf \<and> PromptForApproval ext gate2 \<noteq> None
            then (Inr (PromptForApproval ext gate2), [gate1, (rdcall, None)] @ asked)
            else if del \<noteq> None
            then (Inr del, [gate1, (rdcall, None)] @ asked @ [(DeleteAllFiles (BaseOutputDirectory conf), del)])
            else if ModelSave ext mname mpath \<noteq> None
            then (Inr (ModelSave ext mname mpath),
                  [gate1, (rdcall, None)] @ asked @
                  [(DeleteAllFiles (BaseOutputDirectory conf), None),
                   (SaveModel mname mpath, ModelSave ext mname mpath)])
            else (Inr st,
                  [gate1, (rdcall, None)] @ asked @
                  [(DeleteAllFiles (BaseOutputDirectory conf), None),
                   (SaveModel mname mpath, None),
                   (WriteHexFile ppath addrs, WriteIPsToHexFile ext ppath addrs),
                   (WriteStateFile (GetStateFilePath conf) NETWORK_GROUP, st)])))"
proof -
  have getIPs: "\<And>t. getIPsFromFile ext inputFilePath fileType t = (rd, t @ [(rdcall, snd rd)])"
    unfolding rd_def rdcall_def by (simp add: getIPsFromFile_eq)
  note steps = confirmCleanUpExisting_eq confirmTooFew_eq getIPs cleanUpWorkingDirectories_eq
    createBlankModel_eq writeNewAddresses_eq updateState_eq
  show ?thesis
  proof (cases "PromptForApproval ext (CleanUpPrompt inputFilePath (BaseOutputDirectory conf))")
    case (Some e)
    then show ?thesis by (simp add: PrepareFromInputFile_def steps)
  next
    case None
    note g1 = None
    show ?thesis
    proof (cases "snd rd")
      case (Some e)
      with g1 show ?thesis
        by (simp add: PrepareFromInputFile_def steps case_prod_beta gate1_def)
    next
      case None
      note r = None
      show ?thesis
      proof (cases "filterOutHighEntropyIPs ext (removeDuplicateIPs (fst rd) conf) conf")
        case (Inl p)
        with g1 r show ?thesis
          by (simp add: PrepareFromInputFile_def steps case_prod_beta gate1_def)
      next
        case (Inr addrs)
        with g1 r show ?thesis
          unfolding del_def mname_def mpath_def ppath_def st_def gate1_def
          by (cases "int (length addrs) < InputMinAddresses conf";
              cases "PromptForApproval ext (TooFewPrompt (int (length addrs)) (InputMinAddresses conf))";
              cases "snd (DeleteAllFilesInDirectory ext (BaseOutputDirectory conf))";
              cases "ModelSave ext (''Model from '' @ inputFilePath)
                       (GetTimedFilePath ext (GetGeneratedModelDirPath conf))")
             (simp_all add: PrepareFromInputFile_def steps case_prod_beta Let_def)
      qed
    qed
  qed
qed

lemmas run_defs =
  PrepareFromInputFile_def step_eqs case_prod_beta removeDuplicateIPs_def GetUniqueIPs_def filterOutHighEntropyIPs_def go_rem_def
  Let_def

text \<open>
  C2. In every run, whenever a call that changes files (workspace reset, model bootstrap,
  result write, state advance) is made, the calls made before it include the approved
  clean-up prompt, the entropy filter has returned its list of survivors, and either the
  number of survivors is at least \<open>InputMinAddresses\<close> or the calls made before include
  the approved too-few prompt for that number.
\<close>

theorem mutations_follow_gates:
  assumes run: "snd (PrepareFromInputFile ext inputFilePath fileType conf) = pre @ (c, r) # post"
      and mut: "mutates c"
  shows "(AskApproval (CleanUpPrompt inputFilePath (BaseOutputDirectory conf)), None) \<in> set pre \<and>
         (\<exists>survivors.
            filterOutHighEntropyIPs ext
              (removeDuplicateIPs
                 (fst (if fileType = ''bin'' then ReadIPsFromBinaryFile ext inputFilePath
                       else ReadIPsFromHexFile ext inputFilePath)) conf) conf = Inr survivors \<and>
            (InputMinAddresses conf \<le> int (length survivors) \<or>
             (AskApproval (TooFewPrompt (int (length survivors)) (InputMinAddresses conf)), None)
               \<in> set pre))"
  using assms
  by (auto simp: PrepareFromInputFile_runs Let_def Cons_eq_append_conv append_eq_Cons_conv
           split: sum.splits if_splits)

theorem mutations_follow_gates_witness:
  "snd (PrepareFromInputFile quietWorld ''in.bin'' ''bin'' (exampleConf\<lparr>InputMinAddresses := 1000\<rparr>)) =
     [(AskApproval (CleanUpPrompt ''in.bin'' ''out''), None),
      (ReadBinaryFile ''in.bin'', None),
      (AskApproval (TooFewPrompt 2 1000), None),
      (DeleteAllFiles ''out'', None),
      (SaveModel ''Model from in.bin'' ''out/model/now'', None),
      (WriteHexFile ''out/ping/now'' [ipA, ipB], None)]
     @ (WriteStateFile ''out/state'' NETWORK_GROUP, None) # [] \<and>
   mutates (WriteStateFile ''out/state'' NETWORK_GROUP) \<and>
   filterOutHighEntropyIPs quietWorld (removeDuplicateIPs [ipA, ipB, ipA, ipC] exampleConf)
     (exampleConf\<lparr>InputMinAddresses := 1000\<rparr>) = Inr [ipA, ipB]"
proof -
  have run: "snd (PrepareFromInputFile quietWorld ''in.bin'' ''bin'' (exampleConf\<lparr>InputMinAddresses := 1000\<rparr>)) =
     [(AskApproval (CleanUpPrompt ''in.bin'' ''out''), None),
      (ReadBinaryFile ''in.bin'', None),
      (AskApproval (TooFewPrompt 2 1000), None),
      (DeleteAllFiles ''out'', None),
      (SaveModel ''Model from in.bin'' ''out/model/now'', None),
      (WriteHexFile ''out/ping/now'' [ipA, ipB], None)]
     @ (WriteStateFile ''out/state'' NETWORK_GROUP, None) # []"
    by (simp add: run_defs example_defs)
  have mut: "mutates (WriteStateFile ''out/state'' NETWORK_GROUP)" by simp
  show ?thesis
    using mutations_follow_gates [OF run mut] run
    by (simp add: run_defs example_defs)
qed

text \<open>
  C6. If the clean-up prompt is approved, the input file is read, the filter leaves fewer
  addresses than \<open>InputMinAddresses\<close> and the operator declines to continue, then
  \<open>PrepareFromInputFile\<close> returns the error of that prompt and the run contains no call
  that changes files: reset, bootstrap, write and state advance never run.
\<close>

theorem decline_too_few_leaves_workspace:
  assumes gate: "PromptForApproval ext (CleanUpPrompt inputFilePath (BaseOutputDirectory conf)) = None"
      and load: "(if fileType = ''bin'' then ReadIPsFromBinaryFile ext inputFilePath
                  else ReadIPsFromHexFile ext inputFilePath) = (addrs, None)"
      and filt: "filterOutHighEntropyIPs ext (removeDuplicateIPs addrs conf) conf = Inr survivors"
      and few: "int (length survivors) < InputMinAddresses conf"
      and decl: "PromptForApproval ext (TooFewPrompt (int (length survivors)) (InputMinAddresses conf)) = Some e"
  shows "fst (PrepareFromInputFile ext inputFilePath fileType conf) = Inr (Some e) \<and>
         filter (\<lambda>ev. mutates (fst ev)) (snd (PrepareFromInputFile ext inputFilePath fileType conf)) = []"
  using assms
  by (simp add: PrepareFromInputFile_runs Let_def)

theorem decline_too_few_leaves_workspace_witness:
  "fst (PrepareFromInputFile declinesTooFew ''in.bin'' ''bin'' (exampleConf\<lparr>InputMinAddresses := 1000\<rparr>))
     = Inr (Some (Error ''Exiting.'')) \<and>
   filter (\<lambda>ev. mutates (fst ev))
     (snd (PrepareFromInputFile declinesTooFew ''in.bin'' ''bin'' (exampleConf\<lparr>InputMinAddresses := 1000\<rparr>))) = []"
proof (rule decline_too_few_leaves_workspace [where addrs = "[ipA, ipB, ipA, ipC]" and survivors = "[ipA, ipB]"])
  show "PromptForApproval declinesTooFew
          (CleanUpPrompt ''in.bin'' (BaseOutputDirectory (exampleConf\<lparr>InputMinAddresses := 1000\<rparr>))) = None"
    by (simp add: declinesTooFew_def example_defs)
  show "(if ''bin'' = ''bin'' then ReadIPsFromBinaryFile declinesTooFew ''in.bin''
         else ReadIPsFromHexFile declinesTooFew ''in.bin'') = ([ipA, ipB, ipA, ipC], None)"
    by (simp add: declinesTooFew_def quietWorld_def)
  show "filterOutHighEntropyIPs declinesTooFew
          (removeDuplicateIPs [ipA, ipB, ipA, ipC] (exampleConf\<lparr>InputMinAddresses := 1000\<rparr>))
          (exampleConf\<lparr>InputMinAddresses := 1000\<rparr>) = Inr [ipA, ipB]"
    by (simp add: run_defs declinesTooFew_def example_defs)
  show "int (length [ipA, ipB]) < InputMinAddresses (exampleConf\<lparr>InputMinAddresses := 1000\<rparr>)"
    by simp
  show "PromptForApproval declinesTooFew
          (TooFewPrompt (int (length [ipA, ipB])) (InputMinAddresses (exampleConf\<lparr>InputMinAddresses := 1000\<rparr>)))
          = Some (Error ''Exiting.'')"
    by (simp add: declinesTooFew_def example_defs)
qed

text \<open>
  C7. If the workspace reset is reached and fails with an error, \<open>PrepareFromInputFile\<close>
  returns that error, the failed reset is the last call of the run, and it is the only
  call of the run that changes files: model bootstrap, result write and state advance do
  not execute.
\<close>

theorem reset_failure_aborts:
  assumes "(DeleteAllFiles dir, Some e) \<in> set (snd (PrepareFromInputFile ext inputFilePath fileType conf))"
  shows "fst (PrepareFromInputFile ext inputFilePath fileType conf) = Inr (Some e) \<and>
         last (snd (PrepareFromInputFile ext inputFilePath fileType conf)) = (DeleteAllFiles dir, Some e) \<and>
         filter (\<lambda>ev. mutates (fst ev)) (snd (PrepareFromInputFile ext inputFilePath fileType conf))
           = [(DeleteAllFiles dir, Some e)]"
  using assms
  by (auto simp: PrepareFromInputFile_runs Let_def split: sum.splits if_splits)

theorem reset_failure_aborts_witness:
  "(DeleteAllFiles ''out'', Some (Error ''permission denied''))
     \<in> set (snd (PrepareFromInputFile resetFails ''in.txt'' ''hex'' exampleConf)) \<and>
   PrepareFromInputFile resetFails ''in.txt'' ''hex'' exampleConf =
     (Inr (Some (Error ''permission denied'')),
      [(AskApproval (CleanUpPrompt ''in.txt'' ''out''), None),
       (ReadHexFile ''in.txt'', None),
       (DeleteAllFiles ''out'', Some (Error ''permission denied''))])"
proof -
  have run: "PrepareFromInputFile resetFails ''in.txt'' ''hex'' exampleConf =
     (Inr (Some (Error ''permission denied'')),
      [(AskApproval (CleanUpPrompt ''in.txt'' ''out''), None),
       (ReadHexFile ''in.txt'', None),
       (DeleteAllFiles ''out'', Some (Error ''permission denied''))])"
    by (simp add: run_defs resetFails_def example_defs)
  then have reached: "(DeleteAllFiles ''out'', Some (Error ''permission denied''))
     \<in> set (snd (PrepareFromInputFile resetFails ''in.txt'' ''hex'' exampleConf))"
    by simp
  show ?thesis
    using reset_failure_aborts [OF reached] reached run by simp
qed

text \<open>
  The value \<open>writeNewAddresses\<close> returns is not inspected: whenever the write of the
  surviving addresses is reached, whatever its result, the state file is written next and
  the run returns the result of that write.
\<close>

lemma write_result_ignored:
  assumes "(WriteHexFile path addrs, r) \<in> set (snd (PrepareFromInputFile ext inputFilePath fileType conf))"
  shows "(WriteStateFile (GetStateFilePath conf) NETWORK_GROUP,
          SetStateFile ext (GetStateFilePath conf) NETWORK_GROUP)
           \<in> set (snd (PrepareFromInputFile ext inputFilePath fileType conf)) \<and>
         fst (PrepareFromInputFile ext inputFilePath fileType conf)
           = Inr (SetStateFile ext (GetStateFilePath conf) NETWORK_GROUP)"
  using assms
  by (auto simp: PrepareFromInputFile_runs Let_def split: sum.splits if_splits)

text \<open>
  C1 asks that the state file is advanced only after the write of the surviving addresses
  has succeeded. The run below is the source at an input where that write fails and all
  other steps succeed: the error of the write is dropped, the state file is set to
  \<open>NETWORK_GROUP\<close> all the same, and the pipeline returns nil.
\<close>

theorem state_advances_after_failed_write:
  "PrepareFromInputFile writeFails ''in.bin'' ''bin'' exampleConf =
     (Inr None,
      [(AskApproval (CleanUpPrompt ''in.bin'' ''out''), None),
       (ReadBinaryFile ''in.bin'', None),
       (DeleteAllFiles ''out'', None),
       (SaveModel ''Model from in.bin'' ''out/model/now'', None),
       (WriteHexFile ''out/ping/now'' [ipA, ipB], Some (Error ''no space left'')),
       (WriteStateFile ''out/state'' NETWORK_GROUP, None)])"
  by (simp add: run_defs writeFails_def example_defs)

section \<open>Properties of the result writer\<close>

lemma writeTextLoop_eq:
  "writeTextLoop ext addrs stream = stream @ concat (map (\<lambda>addr. IPString ext addr @ [newline]) addrs)"
  by (induction addrs arbitrary: stream) (simp_all add: Let_def)

lemma writeBinLoop_eq:
  "writeBinLoop ext addrs stream = stream @ concat addrs"
  by (induction addrs arbitrary: stream) (simp_all add: Let_def)

text \<open>
  C8. When the clean ping results are read and the output file is opened,
  \<open>updateAddressFile\<close> hands the writer the raw bytes of every address when the output
  type is \<open>bin\<close>, and otherwise one text per address, each followed by a newline; it logs
  the unexpected-format warning exactly when the type is neither \<open>bin\<close> nor \<open>text\<close>. The
  file receives the part of these bytes that the flush gets through.
\<close>

theorem writer_output_by_type:
  assumes read: "GetCleanPingResults ext (GetCleanPingDirPath conf) = (cleanPings, None)"
      and opened: "OpenFile ext (GetOutputFilePath conf) = None"
  shows "handed (updateAddressFile ext conf) =
           (if OutputFileType conf = ''bin'' then concat cleanPings
            else concat (map (\<lambda>addr. IPString ext addr @ [newline]) cleanPings)) \<and>
         (LogUnexpectedFormat (OutputFileType conf) \<in> set (logged (updateAddressFile ext conf))
            \<longleftrightarrow> OutputFileType conf \<noteq> ''bin'' \<and> OutputFileType conf \<noteq> ''text'') \<and>
         appended (updateAddressFile ext conf) =
           take (fst (BufFlush ext (handed (updateAddressFile ext conf)))) (handed (updateAddressFile ext conf))"
  using assms
  by (simp add: updateAddressFile_def Let_def case_prod_beta writeTextLoop_eq writeBinLoop_eq)

theorem writer_output_by_type_witness:
  "handed (updateAddressFile quietWorld exampleConf) = [0x3A, 1, 0x0A, 0x3A, 2, 0x0A] \<and>
   handed (updateAddressFile quietWorld (exampleConf\<lparr>OutputFileType := ''bin''\<rparr>)) = ipA @ ipB \<and>
   handed (updateAddressFile quietWorld (exampleConf\<lparr>OutputFileType := ''csv''\<rparr>)) = [0x3A, 1, 0x0A, 0x3A, 2, 0x0A] \<and>
   LogUnexpectedFormat ''csv'' \<in> set (logged (updateAddressFile quietWorld (exampleConf\<lparr>OutputFileType := ''csv''\<rparr>))) \<and>
   LogUnexpectedFormat ''text'' \<notin> set (logged (updateAddressFile quietWorld exampleConf)) \<and>
   appended (updateAddressFile quietWorld exampleConf) = [0x3A, 1, 0x0A, 0x3A, 2, 0x0A]"
proof -
  have r: "\<And>c. GetCleanPingResults quietWorld (GetCleanPingDirPath c) = ([ipA, ipB], None)"
    by (simp add: quietWorld_def)
  have opn: "\<And>c. OpenFile quietWorld (GetOutputFilePath c) = None"
    by (simp add: quietWorld_def)
  show ?thesis
    using writer_output_by_type [OF r opn, of exampleConf]
          writer_output_by_type [OF r opn, of "exampleConf\<lparr>OutputFileType := ''bin''\<rparr>"]
          writer_output_by_type [OF r opn, of "exampleConf\<lparr>OutputFileType := ''csv''\<rparr>"]
    by (simp add: example_defs newline_def)
qed

text \<open>
  C10. The error \<open>updateAddressFile\<close> returns is the error of reading the clean ping
  results when there is one, and the error of opening the output file otherwise: nil when
  both succeed. It does not depend on what the buffered writes and the final flush
  report, so the function returns nil also when no address has reached the file.
\<close>

theorem update_error_only_from_read_or_open:
  "returned (updateAddressFile ext conf) =
     (if snd (GetCleanPingResults ext (GetCleanPingDirPath conf)) \<noteq> None
      then snd (GetCleanPingResults ext (GetCleanPingDirPath conf))
      else OpenFile ext (GetOutputFilePath conf)) \<and>
   returned (updateAddressFile (ext\<lparr>BufWrite := w, BufFlush := f\<rparr>) conf) =
     returned (updateAddressFile ext conf)"
  by (simp add: updateAddressFile_def Let_def case_prod_beta)

theorem update_error_only_from_read_or_open_witness:
  "returned (updateAddressFile diskFull exampleConf) = None \<and>
   handed (updateAddressFile diskFull exampleConf) = [0x3A, 1, 0x0A, 0x3A, 2, 0x0A] \<and>
   appended (updateAddressFile diskFull exampleConf) = []"
  using update_error_only_from_read_or_open [of diskFull exampleConf]
  by (simp add: updateAddressFile_def Let_def diskFull_def example_defs newline_def)

end
